theory Spec2Isabelle
  imports Main
begin

section \<open>Dates\<close>

text \<open>
  A JavaScript \<^verbatim>\<open>Date\<close> is modelled by its time value: the number of milliseconds
  since the epoch in UTC, an \<open>int\<close>. Local time depends on the time zone of the
  environment, which is a parameter of the model. A zone gives the offset of local
  time from UTC, in milliseconds, in the two directions of the language
  specification: for a time value (\<^verbatim>\<open>LocalTZA(t, true)\<close>) and for a local time
  (\<^verbatim>\<open>LocalTZA(t, false)\<close>). The functions below are those the two modules import from
  the date library, with the behaviour the library documents for them; the range
  limit of \<^verbatim>\<open>Date\<close> (about 273 thousand years either side of the epoch) is not
  modelled.
\<close>

type_synonym Date = int

record TimeZone =
  offsetAtUTC :: "int \<Rightarrow> int"
  offsetAtLocal :: "int \<Rightarrow> int"

definition LocalTime :: "TimeZone \<Rightarrow> Date \<Rightarrow> int" where
  "LocalTime tz t = t + offsetAtUTC tz t"

definition UTC :: "TimeZone \<Rightarrow> int \<Rightarrow> Date" where
  "UTC tz t = t - offsetAtLocal tz t"

text \<open>A zone whose offset never changes.\<close>

definition fixedOffset :: "int \<Rightarrow> TimeZone" where
  "fixedOffset off = \<lparr>offsetAtUTC = (\<lambda>t. off), offsetAtLocal = (\<lambda>t. off)\<rparr>"

text \<open>
  A zone five hours behind UTC whose clocks go forward by one hour on 10 March 2024
  at 2:00 local time, which is 7:00 UTC (time value 1710054000000), as the clocks
  of New York did. A local time in the hour that is skipped is read with the offset
  before the change.
\<close>

definition springForward2024 :: TimeZone where
  "springForward2024 =
     \<lparr>offsetAtUTC = (\<lambda>t. if t < 1710054000000 then - 18000000 else - 14400000),
      offsetAtLocal = (\<lambda>t. if t < 1710039600000 then - 18000000 else - 14400000)\<rparr>"

definition msPerMinute :: int where "msPerMinute = 60000"
definition msPerHour :: int where "msPerHour = 3600000"
definition msPerDay :: int where "msPerDay = 86400000"

text \<open>\<^verbatim>\<open>addMinutes\<close> and \<^verbatim>\<open>addHours\<close> add elapsed time to the time value.\<close>

definition addMinutes :: "Date \<Rightarrow> int \<Rightarrow> Date" where
  "addMinutes d n = d + n * msPerMinute"

definition addHours :: "Date \<Rightarrow> int \<Rightarrow> Date" where
  "addHours d n = d + n * msPerHour"

text \<open>
  \<^verbatim>\<open>addDays\<close> sets the day of the month of the local date (\<^verbatim>\<open>setDate\<close>), and returns
  the date as it is when the amount is zero.
\<close>

definition addDays :: "TimeZone \<Rightarrow> Date \<Rightarrow> int \<Rightarrow> Date" where
  "addDays tz d n = (if n = 0 then d else UTC tz (LocalTime tz d + n * msPerDay))"

definition addWeeks :: "TimeZone \<Rightarrow> Date \<Rightarrow> int \<Rightarrow> Date" where
  "addWeeks tz d n = addDays tz d (n * 7)"

text \<open>\<^verbatim>\<open>startOfDay\<close> and \<^verbatim>\<open>endOfDay\<close> set the local time of day.\<close>

definition startOfDay :: "TimeZone \<Rightarrow> Date \<Rightarrow> Date" where
  "startOfDay tz d = UTC tz (LocalTime tz d - LocalTime tz d mod msPerDay)"

definition endOfDay :: "TimeZone \<Rightarrow> Date \<Rightarrow> Date" where
  "endOfDay tz d = UTC tz (LocalTime tz d - LocalTime tz d mod msPerDay + (msPerDay - 1))"

definition getHours :: "TimeZone \<Rightarrow> Date \<Rightarrow> int" where
  "getHours tz d = (LocalTime tz d mod msPerDay) div msPerHour"

definition getMinutes :: "TimeZone \<Rightarrow> Date \<Rightarrow> int" where
  "getMinutes tz d = (LocalTime tz d mod msPerHour) div msPerMinute"

text \<open>
  \<^verbatim>\<open>setMinutes\<close> and \<^verbatim>\<open>setHours\<close> replace one field of the local time and keep the
  others: the seconds and milliseconds of the date survive both. A value outside the
  field's range carries over into the next field, as \<^verbatim>\<open>Date.prototype.setHours\<close> does.
\<close>

definition setMinutes :: "TimeZone \<Rightarrow> Date \<Rightarrow> int \<Rightarrow> Date" where
  "setMinutes tz d m = UTC tz (LocalTime tz d + (m - getMinutes tz d) * msPerMinute)"

definition setHours :: "TimeZone \<Rightarrow> Date \<Rightarrow> int \<Rightarrow> Date" where
  "setHours tz d h = UTC tz (LocalTime tz d + (h - getHours tz d) * msPerHour)"

text \<open>\<^verbatim>\<open>getDay\<close>: the day of the week, 0 for Sunday; the epoch was a Thursday.\<close>

definition getDay :: "TimeZone \<Rightarrow> Date \<Rightarrow> int" where
  "getDay tz d = (LocalTime tz d div msPerDay + 4) mod 7"

text \<open>\<^verbatim>\<open>a.toDateString() === b.toDateString()\<close>: the same local calendar day.\<close>

definition sameDateString :: "TimeZone \<Rightarrow> Date \<Rightarrow> Date \<Rightarrow> bool" where
  "sameDateString tz a b = (LocalTime tz a div msPerDay = LocalTime tz b div msPerDay)"

text \<open>
  \<^verbatim>\<open>areIntervalsOverlapping\<close> without the \<^verbatim>\<open>inclusive\<close> option: the library orders the
  two end points of each interval and compares strictly, so intervals that only
  touch do not overlap. (Releases of the library before version 3 throw a
  \<^verbatim>\<open>RangeError\<close> instead of ordering when an interval has its start after its end;
  on intervals with start \<open>\<le>\<close> end the two agree.)
\<close>

definition areIntervalsOverlapping :: "Date \<times> Date \<Rightarrow> Date \<times> Date \<Rightarrow> bool" where
  "areIntervalsOverlapping l r =
     (let leftStartTime = min (fst l) (snd l); leftEndTime = max (fst l) (snd l);
          rightStartTime = min (fst r) (snd r); rightEndTime = max (fst r) (snd r)
      in leftStartTime < rightEndTime \<and> rightStartTime < leftEndTime)"

text \<open>
  \<^verbatim>\<open>format(d, 'h:mm a')\<close>: the hour on the 12-hour clock without padding, the minute
  on two digits, and the day period.
\<close>

definition digit :: "nat \<Rightarrow> char" where
  "digit n = ''0123456789'' ! (n mod 10)"

definition format_h_mm_a :: "TimeZone \<Rightarrow> Date \<Rightarrow> string" where
  "format_h_mm_a tz d =
     (let h = nat (getHours tz d); m = nat (getMinutes tz d);
          h12 = (if h mod 12 = 0 then 12 else h mod 12)
      in (if h12 < 10 then [digit h12] else [digit (h12 div 10), digit h12])
         @ '':'' @ [digit (m div 10), digit m]
         @ '' '' @ (if h < 12 then ''AM'' else ''PM''))"

section \<open>Smart scheduling\<close>

datatype Priority = PLow | PMedium | PHigh | PUrgent

datatype Confidence = CHigh | CMedium | CLow

record Interval =
  start :: Date
  end_time :: Date

record TaskTimeSlot = Interval +
  task_title :: string
  task_priority :: Priority

record SchedulingSuggestion =
  suggestedTime :: Date
  reason :: string
  confidence :: Confidence

record SchedulingOptions =
  preferredDate :: "Date option"
  duration :: "int option"
  opt_priority :: "Priority option"
  avoidConflicts :: "bool option"

definition DEFAULT_WORKING_HOURS_start :: int where "DEFAULT_WORKING_HOURS_start = 9"
definition DEFAULT_WORKING_HOURS_end :: int where "DEFAULT_WORKING_HOURS_end = 18"
definition BREAK_DURATION_MINUTES :: int where "BREAK_DURATION_MINUTES = 15"

subsection \<open>checkForConflicts\<close>

definition checkForConflicts :: "Date \<Rightarrow> int \<Rightarrow> TaskTimeSlot list \<Rightarrow> bool" where
  "checkForConflicts proposedTime durationMinutes existingTasks =
     (let proposedEnd = addMinutes proposedTime durationMinutes
      in list_ex (\<lambda>task. areIntervalsOverlapping (proposedTime, proposedEnd)
                                                   (start task, end_time task))
                 existingTasks)"

subsection \<open>getNextAvailableSlot\<close>

text \<open>
  The loop \<^verbatim>\<open>for (let i = 0; i < 24 * 4; i++)\<close>: \<open>probe n\<close> runs the \<open>n\<close> iterations
  that are left, from the probe time \<open>currentTime\<close>.
\<close>

fun probe :: "nat \<Rightarrow> Date \<Rightarrow> int \<Rightarrow> TaskTimeSlot list \<Rightarrow> Date option" where
  "probe 0 currentTime durationMinutes existingTasks = None"
| "probe (Suc n) currentTime durationMinutes existingTasks =
     (if \<not> checkForConflicts currentTime durationMinutes existingTasks
      then Some currentTime
      else probe n (addMinutes currentTime 15) durationMinutes existingTasks)"

definition getNextAvailableSlot :: "Date \<Rightarrow> int \<Rightarrow> TaskTimeSlot list \<Rightarrow> Date option" where
  "getNextAvailableSlot startTime durationMinutes existingTasks =
     probe (24 * 4) startTime durationMinutes existingTasks"

text \<open>The time of probe number \<open>k\<close>: \<open>k\<close> steps of 15 minutes after the start.\<close>

definition probeTime :: "Date \<Rightarrow> nat \<Rightarrow> Date" where
  "probeTime startTime k = addMinutes startTime (15 * int k)"

subsection \<open>findFreeTimeSlots\<close>

text \<open>
  The loop over the tasks carries the cursor \<^verbatim>\<open>currentTime\<close> and the slots pushed so
  far. The gap in minutes is a quotient of two integers; it is compared here
  without rounding, by multiplying out.
\<close>

fun gapLoop :: "int \<Rightarrow> Date \<Rightarrow> Interval list \<Rightarrow> TaskTimeSlot list \<Rightarrow> Date \<times> Interval list" where
  "gapLoop durationMinutes currentTime slots [] = (currentTime, slots)"
| "gapLoop durationMinutes currentTime slots (task # rest) =
     (let slotEnd = addMinutes currentTime durationMinutes;
          slots' =
            (if currentTime < start task
                \<and> start task - currentTime \<ge> (durationMinutes + BREAK_DURATION_MINUTES) * msPerMinute
                \<and> slotEnd \<le> start task
             then slots @ [\<lparr>start = currentTime, end_time = slotEnd\<rparr>]
             else slots)
      in gapLoop durationMinutes (addMinutes (end_time task) BREAK_DURATION_MINUTES) slots' rest)"

definition findFreeTimeSlots :: "TimeZone \<Rightarrow> Date \<Rightarrow> TaskTimeSlot list \<Rightarrow> int \<Rightarrow> Interval list" where
  "findFreeTimeSlots tz targetDate existingTasks durationMinutes =
     (let workingStart = setHours tz (setMinutes tz targetDate 0) DEFAULT_WORKING_HOURS_start;
          workingEnd = setHours tz (setMinutes tz targetDate 0) DEFAULT_WORKING_HOURS_end;
          (currentTime, slots) = gapLoop durationMinutes workingStart [] existingTasks;
          slotEnd = addMinutes currentTime durationMinutes
      in if currentTime < workingEnd
            \<and> workingEnd - currentTime \<ge> durationMinutes * msPerMinute
            \<and> slotEnd \<le> workingEnd
         then slots @ [\<lparr>start = currentTime, end_time = slotEnd\<rparr>]
         else slots)"

subsection \<open>getSmartSchedulingSuggestions\<close>

definition generateSuggestionReason :: "TimeZone \<Rightarrow> Interval \<Rightarrow> TaskTimeSlot list \<Rightarrow> Priority \<Rightarrow> string" where
  "generateSuggestionReason tz slot existingTasks priority =
     (let timeStr = format_h_mm_a tz (start slot); hour = getHours tz (start slot)
      in if hour \<ge> 9 \<and> hour \<le> 11 then
           ''Great morning slot at '' @ timeStr @ '' - high productivity time''
         else if hour \<ge> 14 \<and> hour \<le> 16 then
           ''Good afternoon slot at '' @ timeStr @ '' - focused work time''
         else if hour \<ge> 11 \<and> hour \<le> 13 then
           ''Lunch hour slot at '' @ timeStr @ '' - good for meetings''
         else
           (let nearbyTasks =
                  filter (\<lambda>task. \<bar>start task - start slot\<bar> < 2 * 60 * 60 * 1000) existingTasks
            in if length nearbyTasks = 0 then
                 ''Free slot at '' @ timeStr @ '' - no nearby tasks''
               else
                 ''Available slot at '' @ timeStr @ '' - fits well with your schedule''))"

definition calculateConfidence :: "TimeZone \<Rightarrow> Interval \<Rightarrow> TaskTimeSlot list \<Rightarrow> Priority \<Rightarrow> Confidence" where
  "calculateConfidence tz slot existingTasks priority =
     (let hour = getHours tz (start slot)
      in if (hour \<ge> 9 \<and> hour \<le> 11) \<or> (hour \<ge> 14 \<and> hour \<le> 16) then CHigh
         else if hour \<ge> DEFAULT_WORKING_HOURS_start \<and> hour \<le> DEFAULT_WORKING_HOURS_end then CMedium
         else CLow)"

text \<open>
  \<^verbatim>\<open>getSmartSchedulingSuggestions\<close> takes two arguments and reads the clock itself
  (\<^verbatim>\<open>const now = new Date()\<close>). The time zone and the clock reading are the first
  two parameters of the model. The target date, the tasks on it and the duration
  are named on their own, as the source names them.
\<close>

definition targetDateOf :: "TimeZone \<Rightarrow> Date \<Rightarrow> SchedulingOptions \<Rightarrow> Date" where
  "targetDateOf tz now options =
     (case preferredDate options of
        Some d \<Rightarrow> d
      | None \<Rightarrow> if getHours tz now < 18 then now
                else addHours (startOfDay tz (addHours now 24)) 9)"

definition tasksOnDateOf :: "TimeZone \<Rightarrow> Date \<Rightarrow> TaskTimeSlot list \<Rightarrow> TaskTimeSlot list" where
  "tasksOnDateOf tz targetDate existingTasks =
     sort_key start (filter (\<lambda>task. sameDateString tz (start task) targetDate) existingTasks)"

definition durationOf :: "SchedulingOptions \<Rightarrow> int" where
  "durationOf options = (case duration options of Some n \<Rightarrow> n | None \<Rightarrow> 60)"

definition priorityOf :: "SchedulingOptions \<Rightarrow> Priority" where
  "priorityOf options = (case opt_priority options of Some p \<Rightarrow> p | None \<Rightarrow> PMedium)"

definition getSmartSchedulingSuggestions ::
  "TimeZone \<Rightarrow> Date \<Rightarrow> TaskTimeSlot list \<Rightarrow> SchedulingOptions \<Rightarrow> SchedulingSuggestion list" where
  "getSmartSchedulingSuggestions tz now existingTasks options =
     (let targetDate = targetDateOf tz now options;
          tasksOnDate = tasksOnDateOf tz targetDate existingTasks;
          freeSlots = findFreeTimeSlots tz targetDate tasksOnDate (durationOf options);
          suggestions =
            map (\<lambda>slot. \<lparr>suggestedTime = start slot,
                          reason = generateSuggestionReason tz slot tasksOnDate (priorityOf options),
                          confidence = calculateConfidence tz slot tasksOnDate (priorityOf options)\<rparr>)
                (take 5 freeSlots)
      in if length suggestions = 0 then
           [\<lparr>suggestedTime = addHours (startOfDay tz (addHours targetDate 24)) 9,
             reason = ''No available slots today. Suggested for tomorrow morning.'',
             confidence = CMedium\<rparr>]
         else suggestions)"

section \<open>Calendar\<close>

text \<open>
  \<^verbatim>\<open>addMonths\<close> works on the fields of the local date: year, month and day of the
  month. The two conversions between a day number (days since the epoch) and these
  fields are those of the proleptic Gregorian calendar, with months counted from 1.
\<close>

definition civilFromDays :: "int \<Rightarrow> int \<times> int \<times> int" where
  "civilFromDays z =
     (let z' = z + 719468;
          era = z' div 146097;
          doe = z' mod 146097;
          yoe = (doe - doe div 1460 + doe div 36524 - doe div 146096) div 365;
          doy = doe - (365 * yoe + yoe div 4 - yoe div 100);
          mp = (5 * doy + 2) div 153;
          d = doy - (153 * mp + 2) div 5 + 1;
          m = (if mp < 10 then mp + 3 else mp - 9);
          y = yoe + era * 400
      in (if m \<le> 2 then y + 1 else y, m, d))"

definition daysFromCivil :: "int \<Rightarrow> int \<Rightarrow> int \<Rightarrow> int" where
  "daysFromCivil y m d =
     (let y' = (if m \<le> 2 then y - 1 else y);
          era = y' div 400;
          yoe = y' mod 400;
          doy = (153 * (if m > 2 then m - 3 else m + 9) + 2) div 5 + d - 1;
          doe = yoe * 365 + yoe div 4 - yoe div 100 + doy
      in era * 146097 + doe - 719468)"

definition daysInMonth :: "int \<Rightarrow> int \<Rightarrow> int" where
  "daysInMonth y m =
     (if m = 2 then (if y mod 4 = 0 \<and> (y mod 100 \<noteq> 0 \<or> y mod 400 = 0) then 29 else 28)
      else if m = 4 \<or> m = 6 \<or> m = 9 \<or> m = 11 then 30 else 31)"

text \<open>
  \<^verbatim>\<open>addMonths\<close> of the date library: the same day of the month \<open>n\<close> months later,
  or the last day of that month when it is shorter; the time of day is kept.
\<close>

definition addMonths :: "TimeZone \<Rightarrow> Date \<Rightarrow> int \<Rightarrow> Date" where
  "addMonths tz d n =
     (if n = 0 then d
      else
        (let (y, m, dayOfMonth) = civilFromDays (LocalTime tz d div msPerDay);
             t = y * 12 + (m - 1) + n;
             y' = t div 12;
             m' = t mod 12 + 1;
             daysInDesiredMonth = daysInMonth y' m';
             day' = (if dayOfMonth \<ge> daysInDesiredMonth then daysInDesiredMonth else dayOfMonth)
         in UTC tz (daysFromCivil y' m' day' * msPerDay + LocalTime tz d mod msPerDay)))"

section \<open>Strings and the regular expressions of the parser\<close>

text \<open>
  A JavaScript string is a sequence of UTF-16 code units. The model takes the
  strings whose code units are below 256 and reads a \<open>char\<close> as the code unit of
  that number (Latin-1). On these, the classes \<^verbatim>\<open>\d\<close>, \<^verbatim>\<open>\w\<close> and \<^verbatim>\<open>\s\<close>, \<^verbatim>\<open>trim\<close>
  and \<^verbatim>\<open>toLowerCase\<close> are as follows.
\<close>

definition is_digit :: "char \<Rightarrow> bool" where
  "is_digit c = (let n = of_char c :: nat in 48 \<le> n \<and> n \<le> 57)"

definition is_word :: "char \<Rightarrow> bool" where
  "is_word c =
     (let n = of_char c :: nat
      in (48 \<le> n \<and> n \<le> 57) \<or> (65 \<le> n \<and> n \<le> 90) \<or> n = 95 \<or> (97 \<le> n \<and> n \<le> 122))"

definition is_space :: "char \<Rightarrow> bool" where
  "is_space c = (let n = of_char c :: nat in (9 \<le> n \<and> n \<le> 13) \<or> n = 32 \<or> n = 160)"

fun setBit5 :: "char \<Rightarrow> char" where
  "setBit5 (Char b0 b1 b2 b3 b4 b5 b6 b7) = Char b0 b1 b2 b3 b4 True b6 b7"

text \<open>Lower case of one code unit: \<open>A\<close> to \<open>Z\<close>, and the capital letters of Latin-1.\<close>

definition toLowerChar :: "char \<Rightarrow> char" where
  "toLowerChar c =
     (let n = of_char c :: nat
      in if (65 \<le> n \<and> n \<le> 90) \<or> (192 \<le> n \<and> n \<le> 222 \<and> n \<noteq> 215) then setBit5 c else c)"

definition toLowerCase :: "string \<Rightarrow> string" where
  "toLowerCase s = map toLowerChar s"

text \<open>
  Matching under the flag \<^verbatim>\<open>i\<close> (without \<^verbatim>\<open>u\<close>) compares the upper case of the
  code units, and never lets a code unit from 128 on match one below 128: a
  letter of a pattern matches itself in either case, any other character of a
  pattern matches itself.
\<close>

definition asciiLower :: "char \<Rightarrow> char" where
  "asciiLower c = (let n = of_char c :: nat in if 65 \<le> n \<and> n \<le> 90 then setBit5 c else c)"

definition trim :: "string \<Rightarrow> string" where
  "trim s = rev (dropWhile is_space (rev (dropWhile is_space s)))"

fun str_includes :: "string \<Rightarrow> string \<Rightarrow> bool" where
  "str_includes [] sub = (sub = [])"
| "str_includes (c # cs) sub = (take (length sub) (c # cs) = sub \<or> str_includes cs sub)"

definition parseInt :: "string \<Rightarrow> nat" where
  "parseInt ds = foldl (\<lambda>n c. 10 * n + (of_char c - 48)) 0 ds"

subsection \<open>The time pattern\<close>

text \<open>
  \<^verbatim>\<open>/(?:at\s+)?(\d{1,2})(?::(\d{2}))?\s*(am|pm|AM|PM)?/g\<close>.
  \<open>matchTimeBody\<close> matches the part from the hour on at the start of a string.
  Each of its quantifiers is greedy and everything after the hour is optional, so
  the first attempt of the matcher succeeds whenever the string starts with a
  digit. The result holds the three groups and the rest of the string after the
  match.
\<close>

definition matchTimeBody :: "string \<Rightarrow> (string \<times> string option \<times> string option \<times> string) option" where
  "matchTimeBody s =
     (let hour = takeWhile is_digit (take 2 s)
      in if hour = [] then None
         else
           (let r1 = drop (length hour) s;
                (minute, r2) =
                  (case r1 of
                     c # a # b # r \<Rightarrow>
                       if c = CHR '':'' \<and> is_digit a \<and> is_digit b then (Some [a, b], r)
                       else (None, r1)
                   | _ \<Rightarrow> (None, r1));
                r3 = dropWhile is_space r2;
                (ampm, r4) =
                  (if take 2 r3 \<in> set [''am'', ''pm'', ''AM'', ''PM'']
                   then (Some (take 2 r3), drop 2 r3)
                   else (None, r3))
            in Some (hour, minute, ampm, r4)))"

text \<open>
  The optional prefix \<^verbatim>\<open>(?:at\s+)?\<close> is tried first; when what follows it is not an
  hour the matcher falls back to the pattern without the prefix.
\<close>

definition matchTimePrefixed :: "string \<Rightarrow> (string \<times> string option \<times> string option \<times> string) option" where
  "matchTimePrefixed s =
     (if take 2 s = ''at'' \<and> takeWhile is_space (drop 2 s) \<noteq> []
      then matchTimeBody (dropWhile is_space (drop 2 s))
      else None)"

record TimeMatch =
  index :: nat
  matched :: string
  group1 :: string
  group2 :: "string option"
  group3 :: "string option"

text \<open>A match of the time pattern at the start of \<open>s\<close>, which is at index \<open>i\<close>.\<close>

definition matchTimeAt :: "nat \<Rightarrow> string \<Rightarrow> TimeMatch option" where
  "matchTimeAt i s =
     (case (case matchTimePrefixed s of Some r \<Rightarrow> Some r | None \<Rightarrow> matchTimeBody s) of
        None \<Rightarrow> None
      | Some (hour, minute, ampm, rest) \<Rightarrow>
          Some \<lparr>index = i, matched = take (length s - length rest) s,
                 group1 = hour, group2 = minute, group3 = ampm\<rparr>)"

text \<open>
  \<^verbatim>\<open>input.matchAll(timeRegex)\<close>: the matches from left to right, each search
  starting where the match before ended. The first argument counts the characters
  of the current match that are still to be skipped, the second is the index of
  the string that is left.
\<close>

fun timeMatches :: "nat \<Rightarrow> nat \<Rightarrow> string \<Rightarrow> TimeMatch list" where
  "timeMatches skip i [] = []"
| "timeMatches (Suc skip) i (c # cs) = timeMatches skip (Suc i) cs"
| "timeMatches 0 i (c # cs) =
     (case matchTimeAt i (c # cs) of
        Some m \<Rightarrow> m # timeMatches (length (matched m) - 1) (Suc i) cs
      | None \<Rightarrow> timeMatches 0 (Suc i) cs)"

definition matchAllTime :: "string \<Rightarrow> TimeMatch list" where
  "matchAllTime input = timeMatches 0 0 input"

text \<open>\<^verbatim>\<open>title.replace(timeRegex, '')\<close>: the string without the matches.\<close>

fun removeTimes :: "nat \<Rightarrow> string \<Rightarrow> string" where
  "removeTimes skip [] = []"
| "removeTimes (Suc skip) (c # cs) = removeTimes skip cs"
| "removeTimes 0 (c # cs) =
     (case matchTimeAt 0 (c # cs) of
        Some m \<Rightarrow> removeTimes (length (matched m) - 1) cs
      | None \<Rightarrow> c # removeTimes 0 cs)"

subsection \<open>Whole words\<close>

text \<open>
  \<^verbatim>\<open>\b\<close> holds between two positions when exactly one of the characters on its
  two sides is a word character; the outside of the string counts as not a word
  character.
\<close>

definition wordBoundary :: "char option \<Rightarrow> char option \<Rightarrow> bool" where
  "wordBoundary prev next =
     ((case prev of None \<Rightarrow> False | Some c \<Rightarrow> is_word c)
        \<noteq> (case next of None \<Rightarrow> False | Some c \<Rightarrow> is_word c))"

definition headOption :: "'a list \<Rightarrow> 'a option" where
  "headOption xs = (case xs of [] \<Rightarrow> None | x # _ \<Rightarrow> Some x)"

definition lastOption :: "'a option \<Rightarrow> 'a list \<Rightarrow> 'a option" where
  "lastOption prev xs = (if xs = [] then prev else Some (last xs))"

text \<open>
  A match of \<^verbatim>\<open>\bword\b\<close> under the flags \<^verbatim>\<open>gi\<close> at the start of \<open>s\<close>, where
  \<open>prev\<close> is the character in front of \<open>s\<close>.
\<close>

definition wordMatchAt :: "string \<Rightarrow> char option \<Rightarrow> string \<Rightarrow> bool" where
  "wordMatchAt word prev s =
     (wordBoundary prev (headOption s)
      \<and> length word \<le> length s
      \<and> map asciiLower (take (length word) s) = map asciiLower word
      \<and> wordBoundary (lastOption prev (take (length word) s)) (headOption (drop (length word) s)))"

text \<open>
  \<^verbatim>\<open>s.replace(/\b(w1|w2|...)\b/gi, '')\<close>: the alternatives are tried in their order
  at each position. A pattern made from one keyword has one alternative.
\<close>

fun removeWords :: "string list \<Rightarrow> nat \<Rightarrow> char option \<Rightarrow> string \<Rightarrow> string" where
  "removeWords alts skip prev [] = []"
| "removeWords alts (Suc skip) prev (c # cs) = removeWords alts skip (Some c) cs"
| "removeWords alts 0 prev (c # cs) =
     (case find (\<lambda>word. wordMatchAt word prev (c # cs)) alts of
        Some word \<Rightarrow> removeWords alts (length word - 1) (Some c) cs
      | None \<Rightarrow> c # removeWords alts 0 (Some c) cs)"

definition replaceWords :: "string list \<Rightarrow> string \<Rightarrow> string" where
  "replaceWords alts s = removeWords alts 0 None s"

text \<open>\<^verbatim>\<open>s.replace(/\s+/g, ' ')\<close>; the flag says whether the run of spaces has begun.\<close>

fun collapseSpaces :: "bool \<Rightarrow> string \<Rightarrow> string" where
  "collapseSpaces inRun [] = []"
| "collapseSpaces inRun (c # cs) =
     (if is_space c
      then (if inRun then collapseSpaces True cs else CHR '' '' # collapseSpaces True cs)
      else c # collapseSpaces False cs)"

section \<open>Natural language parser\<close>

record ParsedTaskData =
  title :: string
  description :: "string option"
  dueDate :: "Date option"
  deadline :: "Date option"
  priority :: Priority
  labels :: "string list option"

definition TIME_KEYWORDS :: "(string \<times> nat) list" where
  "TIME_KEYWORDS =
     [(''morning'', 9), (''afternoon'', 14), (''evening'', 18), (''night'', 20),
      (''midnight'', 0), (''noon'', 12)]"

definition DATE_KEYWORDS :: "(string \<times> (TimeZone \<Rightarrow> Date \<Rightarrow> Date)) list" where
  "DATE_KEYWORDS =
     [(''today'', \<lambda>tz now. startOfDay tz now),
      (''tomorrow'', \<lambda>tz now. startOfDay tz (addDays tz now 1)),
      (''yesterday'', \<lambda>tz now. startOfDay tz (addDays tz now (- 1))),
      (''next week'', \<lambda>tz now. startOfDay tz (addWeeks tz now 1)),
      (''next month'', \<lambda>tz now. startOfDay tz (addMonths tz now 1)),
      (''end of week'', \<lambda>tz now. endOfDay tz (addDays tz now (6 - getDay tz now))),
      (''end of month'', \<lambda>tz now. endOfDay tz (addMonths tz now 1))]"

definition PRIORITY_KEYWORDS :: "(string \<times> Priority) list" where
  "PRIORITY_KEYWORDS =
     [(''low'', PLow), (''medium'', PMedium), (''high'', PHigh), (''urgent'', PUrgent),
      (''important'', PHigh), (''critical'', PUrgent), (''asap'', PUrgent)]"

definition LABEL_KEYWORDS :: "string list" where
  "LABEL_KEYWORDS =
     [''work'', ''personal'', ''urgent'', ''meeting'', ''call'', ''email'', ''shopping'',
      ''health'', ''finance'', ''home'', ''family'', ''friends'', ''travel'', ''project'']"

definition CONNECTING_WORDS :: "string list" where
  "CONNECTING_WORDS =
     [''at'', ''on'', ''in'', ''for'', ''with'', ''by'', ''due'', ''deadline'', ''priority'', ''label'']"

text \<open>
  The loops of the form ``for each entry of the table, if the lower-cased input
  contains the keyword, take the entry and stop'': the first entry of the table, in
  its declared order, whose keyword occurs in the input.
\<close>

definition firstKeyword :: "string \<Rightarrow> (string \<times> 'a) list \<Rightarrow> 'a option" where
  "firstKeyword lowerInput table =
     map_option snd (find (\<lambda>entry. str_includes lowerInput (fst entry)) table)"

definition parsedDateOf :: "TimeZone \<Rightarrow> Date \<Rightarrow> string \<Rightarrow> Date option" where
  "parsedDateOf tz now lowerInput =
     map_option (\<lambda>dateFn. dateFn tz now) (firstKeyword lowerInput DATE_KEYWORDS)"

definition adjustHour :: "nat \<Rightarrow> string option \<Rightarrow> nat" where
  "adjustHour hour ampm =
     (let adjustedHour = (if ampm = Some ''pm'' \<and> hour \<noteq> 12 then hour + 12 else hour)
      in if ampm = Some ''am'' \<and> hour = 12 then 0 else adjustedHour)"

text \<open>The time taken from the first match of the time pattern, as hour and minute.\<close>

definition timeOfMatch :: "TimeMatch \<Rightarrow> nat \<times> nat" where
  "timeOfMatch m =
     (let hour = parseInt (group1 m);
          minute = (case group2 m of Some ds \<Rightarrow> parseInt ds | None \<Rightarrow> 0);
          ampm = map_option toLowerCase (group3 m)
      in (adjustHour hour ampm, minute))"

definition parsedTimeOf :: "string \<Rightarrow> string \<Rightarrow> (nat \<times> nat) option" where
  "parsedTimeOf input lowerInput =
     (case matchAllTime input of
        m # _ \<Rightarrow> Some (timeOfMatch m)
      | [] \<Rightarrow> map_option (\<lambda>hour. (hour, 0)) (firstKeyword lowerInput TIME_KEYWORDS))"

definition finalDateOf :: "TimeZone \<Rightarrow> Date \<Rightarrow> Date option \<Rightarrow> (nat \<times> nat) option \<Rightarrow> Date option" where
  "finalDateOf tz now parsedDate parsedTime =
     (case parsedDate of
        Some d \<Rightarrow>
          (case parsedTime of
             Some (hour, minute) \<Rightarrow> Some (setHours tz (setMinutes tz d (int minute)) (int hour))
           | None \<Rightarrow> Some d)
      | None \<Rightarrow>
          (case parsedTime of
             Some (hour, minute) \<Rightarrow> Some (setHours tz (setMinutes tz now (int minute)) (int hour))
           | None \<Rightarrow> None))"

definition labelsOf :: "string \<Rightarrow> string list" where
  "labelsOf lowerInput = filter (\<lambda>label. str_includes lowerInput label) LABEL_KEYWORDS"

text \<open>
  The title: the input without the time matches, then without each date keyword,
  each priority keyword and each label keyword as a whole word (trimmed after each
  removal), then without the connecting words, with runs of white space collapsed.
\<close>

definition removeKeyword :: "string \<Rightarrow> string \<Rightarrow> string" where
  "removeKeyword t keyword = trim (replaceWords [keyword] t)"

definition strippedTitle :: "string \<Rightarrow> string" where
  "strippedTitle input =
     (let t1 = trim (removeTimes 0 input);
          t2 = foldl removeKeyword t1 (map fst DATE_KEYWORDS);
          t3 = foldl removeKeyword t2 (map fst PRIORITY_KEYWORDS);
          t4 = foldl removeKeyword t3 LABEL_KEYWORDS;
          t5 = trim (replaceWords CONNECTING_WORDS t4)
      in trim (collapseSpaces False t5))"

text \<open>
  \<^verbatim>\<open>parseNaturalLanguage\<close> takes the input only and reads the clock itself
  (\<^verbatim>\<open>const now = new Date()\<close>); the time zone and the clock reading are the first
  two parameters of the model.
  The array \<^verbatim>\<open>datePatterns\<close> and the function \<^verbatim>\<open>parseSpecificDate\<close> of the source are
  never used and have no counterpart here.
\<close>

definition parseNaturalLanguage :: "TimeZone \<Rightarrow> Date \<Rightarrow> string \<Rightarrow> ParsedTaskData" where
  "parseNaturalLanguage tz now input =
     (let lowerInput = toLowerCase input;
          parsedDate = parsedDateOf tz now lowerInput;
          parsedTime = parsedTimeOf input lowerInput;
          finalDate = finalDateOf tz now parsedDate parsedTime;
          priority = firstKeyword lowerInput PRIORITY_KEYWORDS;
          labels = labelsOf lowerInput;
          t = strippedTitle input
      in \<lparr>title = (if t = [] then ''New Task'' else t),
          description = None,
          dueDate = finalDate,
          deadline = None,
          priority = (case priority of Some p \<Rightarrow> p | None \<Rightarrow> PMedium),
          labels = (if length labels > 0 then Some labels else None)\<rparr>)"

section \<open>Notions of the specification\<close>

text \<open>
  The specification's whole-word match: an occurrence of the word that is bounded
  on both sides by a non-word character or by an end of the string. This is the
  match of \<^verbatim>\<open>\bword\b\<close> at some position of the string.
\<close>

definition spec_wholeWordMatch :: "string \<Rightarrow> string \<Rightarrow> bool" where
  "spec_wholeWordMatch word s =
     list_ex (\<lambda>i. wordMatchAt word (if i = 0 then None else Some (s ! (i - 1))) (drop i s))
             [0..<length s]"


text \<open>
  The specification's reading of ``end of month'': the last millisecond of the last
  day of the month after the current one.
\<close>

definition spec_endOfNextMonth :: "TimeZone \<Rightarrow> Date \<Rightarrow> Date" where
  "spec_endOfNextMonth tz now =
     (let (y, m, d) = civilFromDays (LocalTime tz now div msPerDay);
          y' = (if m = 12 then y + 1 else y);
          m' = (if m = 12 then 1 else m + 1)
      in UTC tz (daysFromCivil y' m' (daysInMonth y' m') * msPerDay + (msPerDay - 1)))"

section \<open>Properties of the scheduler\<close>

lemmas date_defs =
  addMinutes_def addHours_def addDays_def startOfDay_def endOfDay_def getHours_def
  getMinutes_def setMinutes_def setHours_def msPerMinute_def msPerHour_def msPerDay_def
  LocalTime_def UTC_def fixedOffset_def
  BREAK_DURATION_MINUTES_def DEFAULT_WORKING_HOURS_start_def DEFAULT_WORKING_HOURS_end_def

lemma addMinutes_pos: "0 < n \<Longrightarrow> p < addMinutes p n"
  by (simp add: addMinutes_def msPerMinute_def)

text \<open>
  On proper intervals the library's strict comparison is the sharing of an instant
  by the two half-open intervals; the later of the two starts is such an instant.
\<close>

lemma overlap_iff:
  assumes "a < b" and "c < d"
  shows "areIntervalsOverlapping (a, b) (c, d) \<longleftrightarrow> (\<exists>x. a \<le> x \<and> x < b \<and> c \<le> x \<and> x < d)"
proof
  assume "areIntervalsOverlapping (a, b) (c, d)"
  with assms have "a < d" and "c < b"
    by (auto simp: areIntervalsOverlapping_def Let_def)
  with assms have "a \<le> max a c \<and> max a c < b \<and> c \<le> max a c \<and> max a c < d"
    by auto
  then show "\<exists>x. a \<le> x \<and> x < b \<and> c \<le> x \<and> x < d"
    by blast
next
  assume "\<exists>x. a \<le> x \<and> x < b \<and> c \<le> x \<and> x < d"
  with assms show "areIntervalsOverlapping (a, b) (c, d)"
    by (auto simp: areIntervalsOverlapping_def Let_def)
qed

text \<open>
  C2. For a positive duration and commitments with start before end,
  \<^verbatim>\<open>checkForConflicts\<close> is true exactly when the half-open proposed interval
  \<open>[proposedTime, proposedTime + duration)\<close> shares an instant with the half-open
  interval of some commitment. It is true for a proposal identical to a commitment,
  and a commitment that ends exactly where the proposal starts contributes nothing
  to the answer.
\<close>

theorem checkForConflicts_iff_overlap:
  assumes "0 < durationMinutes"
    and "\<forall>task \<in> set existingTasks. start task < end_time task"
  shows "(checkForConflicts proposedTime durationMinutes existingTasks \<longleftrightarrow>
            (\<exists>task \<in> set existingTasks. \<exists>x.
                 proposedTime \<le> x \<and> x < addMinutes proposedTime durationMinutes
                 \<and> start task \<le> x \<and> x < end_time task))
       \<and> (\<forall>task \<in> set existingTasks.
             addMinutes (start task) durationMinutes = end_time task
             \<longrightarrow> checkForConflicts (start task) durationMinutes existingTasks)
       \<and> (\<forall>task rest. start task < end_time task \<longrightarrow>
             checkForConflicts (end_time task) durationMinutes (task # rest)
               = checkForConflicts (end_time task) durationMinutes rest)"
proof (intro conjI ballI allI impI)
  show "checkForConflicts proposedTime durationMinutes existingTasks \<longleftrightarrow>
          (\<exists>task \<in> set existingTasks. \<exists>x.
               proposedTime \<le> x \<and> x < addMinutes proposedTime durationMinutes
               \<and> start task \<le> x \<and> x < end_time task)"
    using assms
    by (simp add: checkForConflicts_def Let_def list_ex_iff overlap_iff addMinutes_pos)
next
  fix task
  assume t: "task \<in> set existingTasks"
    and e: "addMinutes (start task) durationMinutes = end_time task"
  from assms t have "start task < end_time task"
    by blast
  then have "areIntervalsOverlapping (start task, end_time task) (start task, end_time task)"
    by (simp add: areIntervalsOverlapping_def Let_def)
  with t e show "checkForConflicts (start task) durationMinutes existingTasks"
    by (auto simp: checkForConflicts_def Let_def list_ex_iff)
next
  fix task :: TaskTimeSlot and rest
  assume "start task < end_time task"
  with assms(1) have "\<not> areIntervalsOverlapping
      (end_time task, addMinutes (end_time task) durationMinutes) (start task, end_time task)"
    using addMinutes_pos [of durationMinutes "end_time task"]
    by (simp add: areIntervalsOverlapping_def Let_def)
  then show "checkForConflicts (end_time task) durationMinutes (task # rest)
               = checkForConflicts (end_time task) durationMinutes rest"
    by (simp add: checkForConflicts_def Let_def)
qed

text \<open>
  At a commitment from 10:00 to 11:00 on 15 January 2024: a proposal of 60 minutes
  at 10:30 shares an instant with it, the identical proposal at 10:00 conflicts,
  and the proposal at 11:00 does not.
\<close>

theorem checkForConflicts_iff_overlap_witness:
  "(\<exists>x. 1705314600000 \<le> x \<and> x < addMinutes 1705314600000 60
         \<and> (1705312800000::int) \<le> x \<and> x < 1705316400000)
   \<and> checkForConflicts 1705312800000 60
        [\<lparr>start = 1705312800000, end_time = 1705316400000,
          task_title = ''Review'', task_priority = PMedium\<rparr>]
   \<and> \<not> checkForConflicts 1705316400000 60
        [\<lparr>start = 1705312800000, end_time = 1705316400000,
          task_title = ''Review'', task_priority = PMedium\<rparr>]"
proof -
  let ?t = "\<lparr>start = 1705312800000, end_time = 1705316400000,
             task_title = ''Review'', task_priority = PMedium\<rparr>"
  have d: "(0::int) < 60"
    by simp
  have w: "\<forall>task \<in> set [?t]. start task < end_time task"
    by simp
  have c: "checkForConflicts 1705314600000 60 [?t]"
    by (simp add: checkForConflicts_def areIntervalsOverlapping_def Let_def date_defs)
  have e: "addMinutes (start ?t) 60 = end_time ?t"
    by (simp add: date_defs)
  have n: "\<not> checkForConflicts 1705316400000 60 []"
    by (simp add: checkForConflicts_def)
  note th = checkForConflicts_iff_overlap [OF d w, of 1705314600000]
  have "\<not> checkForConflicts (end_time ?t) 60 [?t]"
    using th [THEN conjunct2, THEN conjunct2, rule_format, of ?t "[]"] n
    by simp
  moreover have "checkForConflicts (start ?t) 60 [?t]"
    using th [THEN conjunct2, THEN conjunct1, rule_format, of ?t] e
    by simp
  moreover have "\<exists>x. 1705314600000 \<le> x \<and> x < addMinutes 1705314600000 60
         \<and> (1705312800000::int) \<le> x \<and> x < 1705316400000"
    using th [THEN conjunct1] c
    by simp
  ultimately show ?thesis
    by simp
qed

lemmas sched_eval =
  findFreeTimeSlots_def checkForConflicts_def areIntervalsOverlapping_def Let_def date_defs

subsection \<open>getNextAvailableSlot\<close>

lemma probeTime_0: "probeTime cur 0 = cur"
  by (simp add: probeTime_def addMinutes_def)

lemma probeTime_Suc: "probeTime (addMinutes cur 15) k = probeTime cur (Suc k)"
  by (simp add: probeTime_def addMinutes_def algebra_simps)

lemma all_less_Suc_shift: "(\<forall>k<Suc n. P k) \<longleftrightarrow> P 0 \<and> (\<forall>k<n. P (Suc k))"
proof
  assume "\<forall>k<Suc n. P k"
  then show "P 0 \<and> (\<forall>k<n. P (Suc k))" by auto
next
  assume r: "P 0 \<and> (\<forall>k<n. P (Suc k))"
  show "\<forall>k<Suc n. P k"
  proof (intro allI impI)
    fix k assume "k < Suc n"
    with r show "P k" by (cases k) auto
  qed
qed

lemma probe_None_iff:
  "probe n cur d ts = None \<longleftrightarrow> (\<forall>k<n. checkForConflicts (probeTime cur k) d ts)"
proof (induction n arbitrary: cur)
  case 0
  show ?case by simp
next
  case (Suc n)
  show ?case
    using Suc.IH [of "addMinutes cur 15"]
    by (simp add: all_less_Suc_shift [of n] probeTime_0 probeTime_Suc)
qed

lemma probe_Some_iff:
  "probe n cur d ts = Some t \<longleftrightarrow>
     (\<exists>k<n. t = probeTime cur k
        \<and> \<not> checkForConflicts (probeTime cur k) d ts
        \<and> (\<forall>j<k. checkForConflicts (probeTime cur j) d ts))"
proof (induction n arbitrary: cur)
  case 0
  show ?case by simp
next
  case (Suc n)
  let ?Q = "\<lambda>c k. t = probeTime c k \<and> \<not> checkForConflicts (probeTime c k) d ts
        \<and> (\<forall>j<k. checkForConflicts (probeTime c j) d ts)"
  show ?case
  proof (cases "checkForConflicts cur d ts")
    case False
    have "(\<exists>k<Suc n. ?Q cur k) \<longleftrightarrow> t = cur"
    proof
      assume "\<exists>k<Suc n. ?Q cur k"
      then obtain k where k: "?Q cur k" by blast
      have "k = 0"
      proof (rule ccontr)
        assume "k \<noteq> 0"
        with k have "checkForConflicts (probeTime cur 0) d ts" by simp
        with False show False by (simp add: probeTime_0)
      qed
      with k show "t = cur" by (simp add: probeTime_0)
    next
      assume "t = cur"
      with False have "0 < Suc n \<and> ?Q cur 0" by (simp add: probeTime_0)
      then show "\<exists>k<Suc n. ?Q cur k" by blast
    qed
    with False show ?thesis by auto
  next
    case True
    have "(\<exists>k<Suc n. ?Q cur k) \<longleftrightarrow> (\<exists>k<n. ?Q (addMinutes cur 15) k)"
    proof
      assume "\<exists>k<Suc n. ?Q cur k"
      then obtain k where k: "k < Suc n" "?Q cur k" by blast
      have "k \<noteq> 0"
      proof
        assume "k = 0"
        with k(2) have "\<not> checkForConflicts cur d ts" by (simp add: probeTime_0)
        with True show False by simp
      qed
      then obtain k' where k': "k = Suc k'" by (cases k) auto
      with k have "k' < n \<and> ?Q (addMinutes cur 15) k'"
        by (auto simp: probeTime_Suc)
      then show "\<exists>k<n. ?Q (addMinutes cur 15) k" by blast
    next
      assume "\<exists>k<n. ?Q (addMinutes cur 15) k"
      then obtain k where k: "k < n" "?Q (addMinutes cur 15) k" by blast
      with True have "Suc k < Suc n \<and> ?Q cur (Suc k)"
        by (simp add: probeTime_Suc all_less_Suc_shift [of k] probeTime_0)
      then show "\<exists>k<Suc n. ?Q cur k" by blast
    qed
    with True Suc.IH [of "addMinutes cur 15"] show ?thesis
      by simp
  qed
qed

lemma covered_conflict:
  assumes "0 < d" and "task \<in> set ts" and "start task \<le> p" and "p < end_time task"
  shows "checkForConflicts p d ts"
proof -
  from assms(1) have "p < addMinutes p d" by (simp add: addMinutes_def msPerMinute_def)
  with assms(3,4) have "areIntervalsOverlapping (p, addMinutes p d) (start task, end_time task)"
    by (auto simp: areIntervalsOverlapping_def Let_def)
  with assms(2) show ?thesis by (auto simp: checkForConflicts_def Let_def list_ex_iff)
qed

text \<open>
  C4. \<^verbatim>\<open>getNextAvailableSlot\<close> returns none exactly when all 96 probes
  \<open>startTime + k * 15\<close> minutes, \<open>k < 96\<close>, conflict; it returns \<open>t\<close> exactly when
  \<open>t\<close> is the first of these probes that does not conflict. In particular, when the
  duration is positive and every one of the 96 probe times lies inside some
  commitment, it returns none.
\<close>

theorem getNextAvailableSlot_first_free_probe:
  "(getNextAvailableSlot startTime durationMinutes existingTasks = None \<longleftrightarrow>
      (\<forall>k<96. checkForConflicts (probeTime startTime k) durationMinutes existingTasks))
   \<and> (getNextAvailableSlot startTime durationMinutes existingTasks = Some t \<longleftrightarrow>
      (\<exists>k<96. t = probeTime startTime k
         \<and> \<not> checkForConflicts (probeTime startTime k) durationMinutes existingTasks
         \<and> (\<forall>j<k. checkForConflicts (probeTime startTime j) durationMinutes existingTasks)))
   \<and> (0 < durationMinutes
        \<and> (\<forall>k<96. \<exists>task \<in> set existingTasks.
               start task \<le> probeTime startTime k
               \<and> probeTime startTime k < end_time task)
       \<longrightarrow> getNextAvailableSlot startTime durationMinutes existingTasks = None)"
proof -
  have n: "(24 * 4 :: nat) = 96" by simp
  show ?thesis
    unfolding getNextAvailableSlot_def n probe_None_iff probe_Some_iff
    by (blast intro: covered_conflict)
qed

text \<open>
  With a review from 10:00 to 11:00 and a search from 10:00 for 30 minutes, the
  probes at 10:00, 10:15, 10:30 and 10:45 conflict and the fifth, 11:00, is
  returned. With a commitment from 9:00 to 11:00 the next day, all 96 probes from
  10:00 conflict and nothing is returned.
\<close>

theorem getNextAvailableSlot_first_free_probe_witness:
  "getNextAvailableSlot 1705312800000 30
     [\<lparr>start = 1705312800000, end_time = 1705316400000, task_title = ''Review'', task_priority = PMedium\<rparr>]
     = Some 1705316400000
   \<and> getNextAvailableSlot 1705312800000 30
     [\<lparr>start = 1705309200000, end_time = 1705402800000, task_title = ''Conference'', task_priority = PHigh\<rparr>]
     = None"
proof -
  let ?a = "[\<lparr>start = 1705312800000, end_time = 1705316400000, task_title = ''Review'', task_priority = PMedium\<rparr>]"
  let ?b = "[\<lparr>start = 1705309200000, end_time = 1705402800000, task_title = ''Conference'', task_priority = PHigh\<rparr>]"
  have "4 < (96::nat) \<and> 1705316400000 = probeTime 1705312800000 4
      \<and> \<not> checkForConflicts (probeTime 1705312800000 4) 30 ?a
      \<and> (\<forall>j<4. checkForConflicts (probeTime 1705312800000 j) 30 ?a)"
    by (simp add: probeTime_def sched_eval eval_nat_numeral All_less_Suc)
  then have "\<exists>k<96. 1705316400000 = probeTime 1705312800000 k
      \<and> \<not> checkForConflicts (probeTime 1705312800000 k) 30 ?a
      \<and> (\<forall>j<k. checkForConflicts (probeTime 1705312800000 j) 30 ?a)"
    by blast
  then have 1: "getNextAvailableSlot 1705312800000 30 ?a = Some 1705316400000"
    using getNextAvailableSlot_first_free_probe [THEN conjunct2, THEN conjunct1, of 1705312800000 30 ?a 1705316400000]
    by simp
  have "\<forall>k<96. \<exists>task \<in> set ?b. start task \<le> probeTime 1705312800000 k
               \<and> probeTime 1705312800000 k < end_time task"
    by (simp add: probeTime_def date_defs)
  then have 2: "getNextAvailableSlot 1705312800000 30 ?b = None"
    using getNextAvailableSlot_first_free_probe [THEN conjunct2, THEN conjunct2, of 30 ?b 1705312800000]
    by simp
  from 1 2 show ?thesis by simp
qed


subsection \<open>getSmartSchedulingSuggestions\<close>

text \<open>
  C3 fails on the day before the clocks go forward. The fallback is computed as
  \<^verbatim>\<open>addHours(startOfDay(addHours(targetDate, 24)), 9)\<close>: nine elapsed hours after a
  local midnight. In the zone \<open>springForward2024\<close>, with the target date Saturday
  9 March 2024 at 0:00 local time (time value 1709960400000) and a commitment from
  9:00 to 18:00 on that day, no free slot is found, and the single suggestion is
  at time value 1710079200000: Sunday 10 March at 10:00 local time, and not 9:00,
  because the hour from 2:00 to 3:00 does not exist on that day.
\<close>

theorem getSmartSchedulingSuggestions_fallback_across_clock_change:
  "findFreeTimeSlots springForward2024 1709960400000
       [\<lparr>start = 1709992800000, end_time = 1710025200000,
         task_title = ''Conference'', task_priority = PHigh\<rparr>] 60 = []
   \<and> getSmartSchedulingSuggestions springForward2024 1709900000000
       [\<lparr>start = 1709992800000, end_time = 1710025200000,
         task_title = ''Conference'', task_priority = PHigh\<rparr>]
       \<lparr>preferredDate = Some 1709960400000, duration = None, opt_priority = None,
         avoidConflicts = None\<rparr>
      = [\<lparr>suggestedTime = 1710079200000,
          reason = ''No available slots today. Suggested for tomorrow morning.'',
          confidence = CMedium\<rparr>]
   \<and> LocalTime springForward2024 1709960400000 = 1709942400000
   \<and> LocalTime springForward2024 1710079200000 = 1710064800000
   \<and> 1710064800000 = (1709942400000 div msPerDay + 1) * msPerDay + 10 * msPerHour
   \<and> getHours springForward2024 1710079200000 = 10"
  by code_simp

text \<open>
  In every zone the list has between one and five entries, and without a free slot
  it is the single fallback suggestion with confidence medium. In a zone whose
  offset never changes, the fallback is at 9:00 local time of the day after the
  target day.
\<close>

lemma getSmartSchedulingSuggestions_length:
  "1 \<le> length (getSmartSchedulingSuggestions tz now existingTasks options)
   \<and> length (getSmartSchedulingSuggestions tz now existingTasks options) \<le> 5"
  by (auto simp: getSmartSchedulingSuggestions_def Let_def Suc_le_eq)

lemma getSmartSchedulingSuggestions_fallback:
  assumes "findFreeTimeSlots tz (targetDateOf tz now options)
             (tasksOnDateOf tz (targetDateOf tz now options) existingTasks) (durationOf options) = []"
  shows "getSmartSchedulingSuggestions tz now existingTasks options =
           [\<lparr>suggestedTime = addHours (startOfDay tz (addHours (targetDateOf tz now options) 24)) 9,
             reason = ''No available slots today. Suggested for tomorrow morning.'',
             confidence = CMedium\<rparr>]"
  using assms by (simp add: getSmartSchedulingSuggestions_def Let_def)

lemma fixedOffset_LocalTime: "LocalTime (fixedOffset off) x = x + off"
  by (simp add: LocalTime_def fixedOffset_def)

lemma fixedOffset_UTC: "UTC (fixedOffset off) x = x - off"
  by (simp add: UTC_def fixedOffset_def)

lemma next_day_at_nine_fixed_offset:
  "LocalTime (fixedOffset off) (addHours (startOfDay (fixedOffset off) (addHours d 24)) 9)
     = (LocalTime (fixedOffset off) d div msPerDay + 1) * msPerDay + 9 * msPerHour"
proof -
  have "d + 24 * 3600000 + off = (d + off) + 86400000"
    by simp
  then have a: "(d + 24 * 3600000 + off) mod 86400000 = (d + off) mod 86400000"
    by (simp only: mod_add_self2)
  have b: "d + off = (d + off) div 86400000 * 86400000 + (d + off) mod 86400000"
    by simp
  have c: "((d + off) div 86400000 + 1) * 86400000 = (d + off) div 86400000 * 86400000 + 86400000"
    by (simp add: algebra_simps)
  show ?thesis
    unfolding addHours_def startOfDay_def fixedOffset_LocalTime fixedOffset_UTC
      msPerHour_def msPerDay_def
    using a b c by linarith
qed

text \<open>
  C10, as the code has it. The function reads the clock, and the clock reading
  decides the target day when no preferred date is given: in a zone without offset
  from UTC, the same arguments give one suggestion on Monday 15 January 2024 at
  10:00 and another on Tuesday 16 January at 10:00.
\<close>

theorem getSmartSchedulingSuggestions_reads_clock:
  "getSmartSchedulingSuggestions (fixedOffset 0) 1705312800000 []
      \<lparr>preferredDate = None, duration = None, opt_priority = None, avoidConflicts = None\<rparr>
   \<noteq> getSmartSchedulingSuggestions (fixedOffset 0) 1705399200000 []
      \<lparr>preferredDate = None, duration = None, opt_priority = None, avoidConflicts = None\<rparr>"
  by code_simp


text \<open>
  C10, amended. The output is a function of the arguments, of the time zone and of
  the clock reading; when the options carry a preferred date, the clock reading has
  no influence.
\<close>

theorem getSmartSchedulingSuggestions_preferredDate_any_clock:
  "getSmartSchedulingSuggestions tz now1 existingTasks (options\<lparr>preferredDate := Some d\<rparr>)
     = getSmartSchedulingSuggestions tz now2 existingTasks (options\<lparr>preferredDate := Some d\<rparr>)"
  by (simp add: getSmartSchedulingSuggestions_def targetDateOf_def)


theorem getSmartSchedulingSuggestions_preferredDate_any_clock_witness:
  "getSmartSchedulingSuggestions (fixedOffset 0) 1705312800000 []
      \<lparr>preferredDate = Some 1705449600000, duration = None, opt_priority = None, avoidConflicts = None\<rparr>
   = getSmartSchedulingSuggestions (fixedOffset 0) 1705399200000 []
      \<lparr>preferredDate = Some 1705449600000, duration = None, opt_priority = None, avoidConflicts = None\<rparr>"
  using getSmartSchedulingSuggestions_preferredDate_any_clock [where tz = "fixedOffset 0" and ?now1.0 = 1705312800000 and ?now2.0 = 1705399200000 and existingTasks = "[]" and d = 1705449600000
      and options = "\<lparr>preferredDate = None, duration = None, opt_priority = None, avoidConflicts = None\<rparr>"]
  by simp


subsection \<open>findFreeTimeSlots\<close>

text \<open>
  C1 fails on commitments that are sorted by start and overlap. In a zone without
  offset from UTC, with a workshop
  from 9:00 to 17:00 and a stand-up from 10:00 to 10:30 on 15 January 2024, the
  cursor is set to 17:15 after the workshop and then back to 10:45 after the
  stand-up; the slot from 10:45 to 11:45 is returned, and \<^verbatim>\<open>checkForConflicts\<close>
  reports a conflict for it (with the workshop).
\<close>

theorem findFreeTimeSlots_slot_inside_commitment:
  "sorted (map start
      [\<lparr>start = 1705309200000, end_time = 1705338000000, task_title = ''Workshop'', task_priority = PMedium\<rparr>,
       \<lparr>start = 1705312800000, end_time = 1705314600000, task_title = ''Stand-up'', task_priority = PMedium\<rparr>])
   \<and> findFreeTimeSlots (fixedOffset 0) 1705312800000
      [\<lparr>start = 1705309200000, end_time = 1705338000000, task_title = ''Workshop'', task_priority = PMedium\<rparr>,
       \<lparr>start = 1705312800000, end_time = 1705314600000, task_title = ''Stand-up'', task_priority = PMedium\<rparr>] 60
     = [\<lparr>start = 1705315500000, end_time = 1705319100000\<rparr>]
   \<and> checkForConflicts 1705315500000 60
      [\<lparr>start = 1705309200000, end_time = 1705338000000, task_title = ''Workshop'', task_priority = PMedium\<rparr>,
       \<lparr>start = 1705312800000, end_time = 1705314600000, task_title = ''Stand-up'', task_priority = PMedium\<rparr>]"
  by (simp add: sched_eval)


text \<open>
  C5 fails on a commitment that ends before the working window. In a zone without
  offset from UTC, with a commitment
  from 7:00 to 7:30 on 15 January 2024, the cursor is set back from 9:00 to 7:45,
  and the slot from 7:45 to 8:45 is returned; the working window starts at 9:00.
\<close>

theorem findFreeTimeSlots_slot_before_window:
  "findFreeTimeSlots (fixedOffset 0) 1705312800000
      [\<lparr>start = 1705302000000, end_time = 1705303800000, task_title = ''Gym'', task_priority = PLow\<rparr>] 60
     = [\<lparr>start = 1705304700000, end_time = 1705308300000\<rparr>]
   \<and> startOfDay (fixedOffset 0) 1705312800000 + 9 * msPerHour = 1705309200000
   \<and> (1705304700000 :: int) < 1705309200000"
  by (simp add: sched_eval)

subsection \<open>Where the slots are free and inside the window\<close>

text \<open>
  The cursor moves backwards only when a commitment ends before the cursor. When
  the commitments are sorted by end as well as by start, it never does, and every
  slot returned is free of conflicts.
\<close>

lemma no_conflict_iff:
  assumes "0 < dur" and "\<forall>t \<in> set ts. start t < end_time t"
  shows "\<not> checkForConflicts a dur ts
           \<longleftrightarrow> (\<forall>t \<in> set ts. end_time t \<le> a \<or> addMinutes a dur \<le> start t)"
proof -
  from assms(1) have "a < addMinutes a dur"
    by (simp add: addMinutes_def msPerMinute_def)
  with assms(2) show ?thesis
    by (fastforce simp: checkForConflicts_def Let_def list_ex_iff areIntervalsOverlapping_def)
qed

lemma gapLoop_free:
  assumes "\<forall>t \<in> set (done @ rest). start t < end_time t"
    and "sorted (map start rest)"
    and "sorted (map end_time (done @ rest))"
    and "\<forall>t \<in> set done. end_time t \<le> cur"
    and "\<forall>s \<in> set acc. \<forall>t \<in> set (done @ rest).
           end_time t \<le> start s \<or> addMinutes (start s) dur \<le> start t"
  shows "(\<forall>t \<in> set (done @ rest). end_time t \<le> fst (gapLoop dur cur acc rest))
       \<and> (\<forall>s \<in> set (snd (gapLoop dur cur acc rest)). \<forall>t \<in> set (done @ rest).
             end_time t \<le> start s \<or> addMinutes (start s) dur \<le> start t)"
  using assms
proof (induction rest arbitrary: "done" cur acc)
  case Nil
  then show ?case by simp
next
  case (Cons t rest)
  let ?cur' = "addMinutes (end_time t) BREAK_DURATION_MINUTES"
  let ?slotEnd = "addMinutes cur dur"
  let ?emit = "cur < start t
                \<and> start t - cur \<ge> (dur + BREAK_DURATION_MINUTES) * msPerMinute
                \<and> ?slotEnd \<le> start t"
  let ?acc' = "if ?emit then acc @ [\<lparr>start = cur, end_time = ?slotEnd\<rparr>] else acc"
  have eq: "gapLoop dur cur acc (t # rest) = gapLoop dur ?cur' ?acc' rest"
    by (simp add: Let_def)
  have app: "(done @ [t]) @ rest = done @ t # rest"
    by simp
  have 1: "\<forall>u \<in> set ((done @ [t]) @ rest). start u < end_time u"
    using Cons.prems(1) by simp
  have 2: "sorted (map start rest)"
    using Cons.prems(2) by simp
  have 3: "sorted (map end_time ((done @ [t]) @ rest))"
    using Cons.prems(3) by simp
  have le: "\<forall>u \<in> set done. end_time u \<le> end_time t"
    using Cons.prems(3) by (auto simp: sorted_append)
  have 4: "\<forall>u \<in> set (done @ [t]). end_time u \<le> ?cur'"
    using le by (auto simp: addMinutes_def BREAK_DURATION_MINUTES_def msPerMinute_def)
  have later: "\<forall>u \<in> set (t # rest). start t \<le> start u"
    using Cons.prems(2) by auto
  have 5: "\<forall>s \<in> set ?acc'. \<forall>u \<in> set ((done @ [t]) @ rest).
           end_time u \<le> start s \<or> addMinutes (start s) dur \<le> start u"
  proof (intro ballI)
    fix s u
    assume s: "s \<in> set ?acc'" and u: "u \<in> set ((done @ [t]) @ rest)"
    show "end_time u \<le> start s \<or> addMinutes (start s) dur \<le> start u"
    proof (cases "s \<in> set acc")
      case True
      from u have "u \<in> set (done @ t # rest)" by simp
      with Cons.prems(5) True show ?thesis by blast
    next
      case False
      with s have e: ?emit and sv: "s = \<lparr>start = cur, end_time = ?slotEnd\<rparr>"
        by (auto split: if_splits)
      from u have "u \<in> set done \<or> u \<in> set (t # rest)" by auto
      then show ?thesis
      proof
        assume "u \<in> set done"
        with Cons.prems(4) sv show ?thesis by simp
      next
        assume "u \<in> set (t # rest)"
        with later have "start t \<le> start u" by blast
        with e sv show ?thesis by simp
      qed
    qed
  qed
  from Cons.IH [OF 1 2 3 4 5] show ?case
    unfolding eq app .
qed

lemma findFreeTimeSlots_free_if_ends_sorted:
  assumes "0 < durationMinutes"
    and "\<forall>task \<in> set existingTasks. start task < end_time task"
    and "sorted (map start existingTasks)"
    and "sorted (map end_time existingTasks)"
  shows "\<forall>slot \<in> set (findFreeTimeSlots tz targetDate existingTasks durationMinutes).
           \<not> checkForConflicts (start slot) durationMinutes existingTasks"
proof -
  let ?ws = "setHours tz (setMinutes tz targetDate 0) DEFAULT_WORKING_HOURS_start"
  let ?g = "gapLoop durationMinutes ?ws [] existingTasks"
  have g: "(\<forall>t \<in> set existingTasks. end_time t \<le> fst ?g)
       \<and> (\<forall>s \<in> set (snd ?g). \<forall>t \<in> set existingTasks.
             end_time t \<le> start s \<or> addMinutes (start s) durationMinutes \<le> start t)"
    using gapLoop_free [of "[]" existingTasks ?ws "[]" durationMinutes] assms by simp
  have "\<forall>t \<in> set existingTasks.
          end_time t \<le> start slot \<or> addMinutes (start slot) durationMinutes \<le> start t"
    if "slot \<in> set (findFreeTimeSlots tz targetDate existingTasks durationMinutes)" for slot
  proof (cases "slot \<in> set (snd ?g)")
    case True
    with g show ?thesis by blast
  next
    case False
    with that have "start slot = fst ?g"
      by (auto simp: findFreeTimeSlots_def Let_def split_beta split: if_splits)
    with g show ?thesis by simp
  qed
  then show ?thesis
    using no_conflict_iff [OF assms(1,2)] by blast
qed

text \<open>
  In a zone whose offset never changes, the working window of the code runs from
  9:00 to 18:00 local time of the target day, plus the seconds and milliseconds of
  the target date, which \<^verbatim>\<open>setMinutes\<close> keeps.
\<close>

lemma working_hour_arith:
  fixes L h :: int
  defines "x \<equiv> L - (L mod 3600000) div 60000 * 60000"
  shows "x + (h - (x mod 86400000) div 3600000) * 3600000
           = L - L mod 86400000 + h * 3600000 + L mod 60000"
proof -
  define r where "r = L mod 60000"
  define q where "q = (L mod 86400000) div 3600000"
  define k where "k = L div 86400000"
  have r: "0 \<le> r" "r < 60000"
    by (simp_all add: r_def)
  have q: "0 \<le> q" "q < 24"
    by (simp_all add: q_def)
  have "(L mod 3600000) mod 60000 = r"
    by (simp add: r_def mod_mod_cancel)
  then have m1: "L mod 3600000 = (L mod 3600000) div 60000 * 60000 + r"
    using div_mult_mod_eq [of "L mod 3600000" 60000] by simp
  have "(L mod 86400000) mod 3600000 = L mod 3600000"
    by (simp add: mod_mod_cancel)
  then have m2: "L mod 86400000 = q * 3600000 + L mod 3600000"
    using div_mult_mod_eq [of "L mod 86400000" 3600000] by (simp add: q_def)
  have m3: "L = k * 86400000 + L mod 86400000"
    by (simp add: k_def)
  from m1 m2 m3 have x: "x = k * 86400000 + (q * 3600000 + r)"
    unfolding x_def by linarith
  have b: "0 \<le> q * 3600000 + r" "q * 3600000 + r < 86400000"
    using q r by linarith+
  have "x mod 86400000 = (q * 3600000 + r) mod 86400000"
    unfolding x by (rule mod_mult_self3)
  also have "\<dots> = q * 3600000 + r"
    using b by (rule mod_pos_pos_trivial)
  finally have xm: "x mod 86400000 = q * 3600000 + r" .
  have "(q * 3600000 + r) div 3600000 = q + r div 3600000"
    by (rule div_mult_self3) simp
  moreover have "r div 3600000 = 0"
    using r by (simp add: div_pos_pos_trivial)
  ultimately have "(x mod 86400000) div 3600000 = q"
    by (simp add: xm)
  moreover have "L - L mod 86400000 = k * 86400000"
    using m3 by linarith
  ultimately show ?thesis
    using x by (simp add: algebra_simps r_def)
qed

lemma working_hour:
  "LocalTime (fixedOffset off) (setHours (fixedOffset off) (setMinutes (fixedOffset off) d 0) h)
     = LocalTime (fixedOffset off) d - LocalTime (fixedOffset off) d mod msPerDay
       + h * msPerHour + LocalTime (fixedOffset off) d mod msPerMinute"
proof -
  define L where "L = d + off"
  define x where "x = L - (L mod 3600000) div 60000 * 60000"
  have sm: "LocalTime (fixedOffset off) (setMinutes (fixedOffset off) d 0) = x"
    by (simp add: setMinutes_def getMinutes_def fixedOffset_LocalTime fixedOffset_UTC
        msPerHour_def msPerMinute_def x_def L_def)
  have sh: "LocalTime (fixedOffset off) (setHours (fixedOffset off) s h)
              = LocalTime (fixedOffset off) s
                + (h - (LocalTime (fixedOffset off) s mod 86400000) div 3600000) * 3600000" for s
    by (simp add: setHours_def getHours_def fixedOffset_LocalTime fixedOffset_UTC
        msPerDay_def msPerHour_def)
  have "LocalTime (fixedOffset off) (setHours (fixedOffset off) (setMinutes (fixedOffset off) d 0) h)
          = x + (h - (x mod 86400000) div 3600000) * 3600000"
    by (simp only: sh sm)
  also have "\<dots> = L - L mod 86400000 + h * 3600000 + L mod 60000"
    unfolding x_def by (rule working_hour_arith)
  finally show ?thesis
    by (simp only: fixedOffset_LocalTime L_def msPerDay_def msPerHour_def msPerMinute_def)
qed

text \<open>
  When every commitment starts no later than \<^verbatim>\<open>workingEnd\<close> and ends no earlier
  than a break before \<^verbatim>\<open>workingStart\<close>, every slot lies between the two.
\<close>

lemma gapLoop_window:
  assumes "ws \<le> cur"
    and "\<forall>t \<in> set rest. ws \<le> addMinutes (end_time t) BREAK_DURATION_MINUTES \<and> start t \<le> we"
    and "\<forall>s \<in> set acc. ws \<le> start s \<and> end_time s \<le> we"
  shows "ws \<le> fst (gapLoop dur cur acc rest)
       \<and> (\<forall>s \<in> set (snd (gapLoop dur cur acc rest)). ws \<le> start s \<and> end_time s \<le> we)"
  using assms
proof (induction rest arbitrary: cur acc)
  case Nil
  then show ?case by simp
next
  case (Cons t rest)
  let ?cur' = "addMinutes (end_time t) BREAK_DURATION_MINUTES"
  let ?slotEnd = "addMinutes cur dur"
  let ?emit = "cur < start t
                \<and> start t - cur \<ge> (dur + BREAK_DURATION_MINUTES) * msPerMinute
                \<and> ?slotEnd \<le> start t"
  let ?acc' = "if ?emit then acc @ [\<lparr>start = cur, end_time = ?slotEnd\<rparr>] else acc"
  have eq: "gapLoop dur cur acc (t # rest) = gapLoop dur ?cur' ?acc' rest"
    by (simp add: Let_def)
  have 1: "ws \<le> ?cur'"
    using Cons.prems(2) by simp
  have 2: "\<forall>u \<in> set rest. ws \<le> addMinutes (end_time u) BREAK_DURATION_MINUTES \<and> start u \<le> we"
    using Cons.prems(2) by simp
  have "start t \<le> we"
    using Cons.prems(2) by simp
  then have 3: "\<forall>s \<in> set ?acc'. ws \<le> start s \<and> end_time s \<le> we"
    using Cons.prems(1,3) by auto
  from Cons.IH [OF 1 2 3] show ?case
    unfolding eq .
qed

lemma findFreeTimeSlots_in_window_if_tasks_in_window:
  assumes "\<forall>task \<in> set existingTasks.
             setHours tz (setMinutes tz targetDate 0) DEFAULT_WORKING_HOURS_start
                \<le> addMinutes (end_time task) BREAK_DURATION_MINUTES
             \<and> start task \<le> setHours tz (setMinutes tz targetDate 0) DEFAULT_WORKING_HOURS_end"
  shows "\<forall>slot \<in> set (findFreeTimeSlots tz targetDate existingTasks durationMinutes).
           setHours tz (setMinutes tz targetDate 0) DEFAULT_WORKING_HOURS_start \<le> start slot
           \<and> end_time slot \<le> setHours tz (setMinutes tz targetDate 0) DEFAULT_WORKING_HOURS_end"
proof -
  let ?ws = "setHours tz (setMinutes tz targetDate 0) DEFAULT_WORKING_HOURS_start"
  let ?we = "setHours tz (setMinutes tz targetDate 0) DEFAULT_WORKING_HOURS_end"
  let ?g = "gapLoop durationMinutes ?ws [] existingTasks"
  have g: "?ws \<le> fst ?g \<and> (\<forall>s \<in> set (snd ?g). ?ws \<le> start s \<and> end_time s \<le> ?we)"
    using gapLoop_window [of ?ws ?ws existingTasks ?we "[]" durationMinutes] assms by simp
  show ?thesis
  proof
    fix slot
    assume a: "slot \<in> set (findFreeTimeSlots tz targetDate existingTasks durationMinutes)"
    show "?ws \<le> start slot \<and> end_time slot \<le> ?we"
    proof (cases "slot \<in> set (snd ?g)")
      case True
      with g show ?thesis by blast
    next
      case False
      with a have "start slot = fst ?g \<and> end_time slot \<le> ?we"
        by (auto simp: findFreeTimeSlots_def Let_def split_beta split: if_splits)
      with g show ?thesis by simp
    qed
  qed
qed


section \<open>Properties of the parser\<close>

subsection \<open>Projections of the result\<close>

lemma labels_parse:
  "labels (parseNaturalLanguage tz now input) =
     (if labelsOf (toLowerCase input) = [] then None else Some (labelsOf (toLowerCase input)))"
  by (simp add: parseNaturalLanguage_def Let_def)

lemma title_parse:
  "title (parseNaturalLanguage tz now input) =
     (if strippedTitle input = [] then ''New Task'' else strippedTitle input)"
  by (simp add: parseNaturalLanguage_def Let_def)

lemma dueDate_parse:
  "dueDate (parseNaturalLanguage tz now input) =
     finalDateOf tz now (parsedDateOf tz now (toLowerCase input)) (parsedTimeOf input (toLowerCase input))"
  by (simp add: parseNaturalLanguage_def Let_def)


subsection \<open>The first match of the time pattern\<close>

lemma timeMatches_none:
  "\<forall>j<length s. matchTimeAt (i + j) (drop j s) = None \<Longrightarrow> timeMatches 0 i s = []"
proof (induction s arbitrary: i)
  case Nil
  show ?case by simp
next
  case (Cons c cs)
  from Cons.prems have n: "matchTimeAt i (c # cs) = None"
    by (metis add.right_neutral drop0 length_Cons zero_less_Suc)
  have "\<forall>j<length cs. matchTimeAt (Suc i + j) (drop j cs) = None"
  proof (intro allI impI)
    fix j assume "j < length cs"
    then have "Suc j < length (c # cs)" by simp
    with Cons.prems have "matchTimeAt (i + Suc j) (drop (Suc j) (c # cs)) = None" by blast
    then show "matchTimeAt (Suc i + j) (drop j cs) = None" by simp
  qed
  from Cons.IH [OF this] n show ?case by simp
qed




lemma matchTimeBody_no_digit:
  assumes "s = [] \<or> \<not> is_digit (hd s)"
  shows "matchTimeBody s = None"
proof -
  from assms have "takeWhile is_digit (take 2 s) = []"
    by (cases s) auto
  then show ?thesis
    by (simp add: matchTimeBody_def)
qed

lemma matchTimeAt_no_digit:
  assumes "\<forall>c \<in> set s. \<not> is_digit c"
  shows "matchTimeAt i s = None"
proof -
  have b: "matchTimeBody s = None"
    using assms by (intro matchTimeBody_no_digit) (cases s, auto)
  let ?r = "dropWhile is_space (drop 2 s)"
  have "set ?r \<subseteq> set s"
    by (meson in_set_dropD set_dropWhileD subsetI)
  with assms have "?r = [] \<or> \<not> is_digit (hd ?r)"
    by (cases ?r) auto
  then have "matchTimeBody ?r = None"
    by (rule matchTimeBody_no_digit)
  then have "matchTimePrefixed s = None"
    by (simp add: matchTimePrefixed_def)
  with b show ?thesis
    by (simp add: matchTimeAt_def)
qed






text \<open>An input without digits has no match, and the time comes from the time words.\<close>

lemma parsedTimeOf_no_digit:
  assumes "\<forall>c \<in> set input. \<not> is_digit c"
  shows "parsedTimeOf input lowerInput
           = map_option (\<lambda>hour. (hour, 0)) (firstKeyword lowerInput TIME_KEYWORDS)"
proof -
  have "matchTimeAt (0 + j) (drop j input) = None" for j
    using assms by (intro matchTimeAt_no_digit) (auto dest: in_set_dropD)
  then have "timeMatches 0 0 input = []"
    by (intro timeMatches_none) simp
  then show ?thesis
    by (simp add: parsedTimeOf_def matchAllTime_def)
qed



subsection \<open>End of month\<close>

lemma parsedDateOf_end_of_month:
  assumes "str_includes lowerInput ''end of month''"
    and "\<forall>keyword \<in> set [''today'', ''tomorrow'', ''yesterday'', ''next week'', ''next month'',
           ''end of week'']. \<not> str_includes lowerInput keyword"
  shows "parsedDateOf tz now lowerInput = Some (endOfDay tz (addMonths tz now 1))"
  using assms by (simp add: parsedDateOf_def firstKeyword_def DATE_KEYWORDS_def)


text \<open>
  C7 fails: the entry for ``end of month'' is \<^verbatim>\<open>endOfDay(addMonths(now, 1))\<close>, the end
  of the day one month later, and not the end of a month. On Monday 15 January
  2024 at 10:00 UTC, in a zone without offset, ``report end of month'' resolves to
  15 February 2024 at 23:59:59.999; the end of the month after the current one is
  29 February 2024 at 23:59:59.999.
\<close>

theorem end_of_month_is_not_end_of_next_month:
  "dueDate (parseNaturalLanguage (fixedOffset 0) 1705312800000 ''report end of month'') = Some 1708041599999
   \<and> spec_endOfNextMonth (fixedOffset 0) 1705312800000 = 1709251199999"
proof -
  let ?s = "''report end of month''"
  have a: "str_includes (toLowerCase ?s) ''end of month''"
    by code_simp
  have b: "\<forall>keyword \<in> set [''today'', ''tomorrow'', ''yesterday'', ''next week'', ''next month'',
           ''end of week'']. \<not> str_includes (toLowerCase ?s) keyword"
    by code_simp
  have e: "endOfDay (fixedOffset 0) (addMonths (fixedOffset 0) 1705312800000 1) = 1708041599999"
    by code_simp
  have t: "parsedTimeOf ?s (toLowerCase ?s) = None"
    by code_simp
  have "dueDate (parseNaturalLanguage (fixedOffset 0) 1705312800000 ?s) = Some 1708041599999"
    by (simp add: dueDate_parse parsedDateOf_end_of_month [OF a b] e t finalDateOf_def)
  moreover have "spec_endOfNextMonth (fixedOffset 0) 1705312800000 = 1709251199999"
    by code_simp
  ultimately show ?thesis by simp
qed


subsection \<open>Labels\<close>

lemma str_includes_iff: "str_includes s sub \<longleftrightarrow> (\<exists>pre suf. s = pre @ sub @ suf)"
proof (induction s)
  case Nil
  show ?case by auto
next
  case (Cons c cs)
  have p: "take (length sub) (c # cs) = sub \<longleftrightarrow> (\<exists>suf. c # cs = sub @ suf)"
  proof
    assume "take (length sub) (c # cs) = sub"
    then have "c # cs = sub @ drop (length sub) (c # cs)"
      by (metis append_take_drop_id)
    then show "\<exists>suf. c # cs = sub @ suf" ..
  next
    assume "\<exists>suf. c # cs = sub @ suf"
    then obtain suf where "c # cs = sub @ suf" ..
    then show "take (length sub) (c # cs) = sub" by simp
  qed
  have "(\<exists>pre suf. c # cs = pre @ sub @ suf)
      \<longleftrightarrow> (\<exists>suf. c # cs = sub @ suf) \<or> (\<exists>pre suf. cs = pre @ sub @ suf)"
  proof
    assume "\<exists>pre suf. c # cs = pre @ sub @ suf"
    then obtain pre suf where e: "c # cs = pre @ sub @ suf" by blast
    show "(\<exists>suf. c # cs = sub @ suf) \<or> (\<exists>pre suf. cs = pre @ sub @ suf)"
    proof (cases pre)
      case Nil
      with e show ?thesis by auto
    next
      case (Cons a pre')
      with e have "cs = pre' @ sub @ suf" by simp
      then show ?thesis by blast
    qed
  next
    assume "(\<exists>suf. c # cs = sub @ suf) \<or> (\<exists>pre suf. cs = pre @ sub @ suf)"
    then show "\<exists>pre suf. c # cs = pre @ sub @ suf"
    proof
      assume "\<exists>suf. c # cs = sub @ suf"
      then obtain suf where "c # cs = [] @ sub @ suf" by auto
      then show ?thesis by blast
    next
      assume "\<exists>pre suf. cs = pre @ sub @ suf"
      then obtain pre suf where "cs = pre @ sub @ suf" by blast
      then have "c # cs = (c # pre) @ sub @ suf" by simp
      then show ?thesis by blast
    qed
  qed
  with p Cons.IH show ?case by simp
qed


text \<open>
  C8, as the code has it. Labels are found with \<^verbatim>\<open>includes\<close>, a substring test: for
  ``homework'' the labels are work and home, and neither occurs there as a whole
  word.
\<close>

theorem labels_substring_not_whole_word:
  "labels (parseNaturalLanguage (fixedOffset 0) 1705312800000 ''homework'') = Some [''work'', ''home'']
   \<and> \<not> spec_wholeWordMatch ''work'' (toLowerCase ''homework'')
   \<and> \<not> spec_wholeWordMatch ''home'' (toLowerCase ''homework'')"
proof -
  have "labelsOf (toLowerCase ''homework'') = [''work'', ''home'']"
    by code_simp
  then have "labels (parseNaturalLanguage (fixedOffset 0) 1705312800000 ''homework'') = Some [''work'', ''home'']"
    by (simp add: labels_parse)
  moreover have "\<not> spec_wholeWordMatch ''work'' (toLowerCase ''homework'')"
    by code_simp
  moreover have "\<not> spec_wholeWordMatch ''home'' (toLowerCase ''homework'')"
    by code_simp
  ultimately show ?thesis by simp
qed
text \<open>
  C8, amended. The labels are the words of the label vocabulary that occur in the
  lower-cased input as a substring, in vocabulary order; the result has no label
  list when there is none.
\<close>

theorem labels_are_substring_matches:
  "labels (parseNaturalLanguage tz now input) =
     (let found = filter (\<lambda>label. \<exists>pre suf. toLowerCase input = pre @ label @ suf) LABEL_KEYWORDS
      in if found = [] then None else Some found)"
  by (simp add: parseNaturalLanguage_def Let_def labelsOf_def str_includes_iff)


theorem labels_are_substring_matches_witness:
  "labels (parseNaturalLanguage (fixedOffset 0) 1705312800000 ''Team meeting'') = Some [''meeting'']"
proof -
  have f: "filter (\<lambda>label. str_includes (toLowerCase ''Team meeting'') label) LABEL_KEYWORDS = [''meeting'']"
    by code_simp
  show ?thesis
    using labels_are_substring_matches [of "fixedOffset 0" 1705312800000 "''Team meeting''"]
    unfolding str_includes_iff [symmetric] f
    by simp
qed

subsection \<open>The empty input and the title\<close>

text \<open>
  C9. On the empty string the result has the title ``New Task'', priority medium
  and no other field; on every input the title is not empty.
\<close>

theorem parseNaturalLanguage_empty_and_title:
  "parseNaturalLanguage tz now '''' =
     \<lparr>title = ''New Task'', description = None, dueDate = None, deadline = None,
       priority = PMedium, labels = None\<rparr>
   \<and> title (parseNaturalLanguage tz now input) \<noteq> ''''"
proof
  show "parseNaturalLanguage tz now '''' =
     \<lparr>title = ''New Task'', description = None, dueDate = None, deadline = None,
       priority = PMedium, labels = None\<rparr>"
    by (simp add: parseNaturalLanguage_def toLowerCase_def parsedDateOf_def parsedTimeOf_def
      firstKeyword_def DATE_KEYWORDS_def TIME_KEYWORDS_def PRIORITY_KEYWORDS_def labelsOf_def
      LABEL_KEYWORDS_def finalDateOf_def matchAllTime_def strippedTitle_def trim_def
      removeKeyword_def replaceWords_def CONNECTING_WORDS_def)
  show "title (parseNaturalLanguage tz now input) \<noteq> ''''"
    by (simp add: parseNaturalLanguage_def Let_def)
qed

text \<open>From ``at 5pm'' everything is stripped, and the title is the placeholder.\<close>

theorem parseNaturalLanguage_empty_and_title_witness:
  "title (parseNaturalLanguage (fixedOffset 0) 1705312800000 ''at 5pm'') = ''New Task''
   \<and> title (parseNaturalLanguage (fixedOffset 0) 1705312800000 ''at 5pm'') \<noteq> ''''"
proof -
  have "strippedTitle ''at 5pm'' = ''''"
    by code_simp
  then have "title (parseNaturalLanguage (fixedOffset 0) 1705312800000 ''at 5pm'') = ''New Task''"
    by (simp add: title_parse)
  with parseNaturalLanguage_empty_and_title [of "fixedOffset 0" 1705312800000 "''at 5pm''"] show ?thesis by simp
qed

end
